theory Spec2Isabelle
  imports Complex_Main
begin

section \<open>The NOAA tides sensor (homeassistant/components/noaa\_tides/sensor.py)\<close>

subsection \<open>Python values and exceptions\<close>

text \<open>
  The value returned by \<^verbatim>\<open>response.json()\<close>: a Python object built from \<^verbatim>\<open>None\<close>,
  booleans, numbers, strings, lists and dictionaries. A dictionary is an association
  list read with \<open>map_of\<close>. The sensor never computes with a number, it only stores it
  and hands it on, so a float is carried as the real number it denotes.
\<close>

datatype json =
    JNull
  | JBool bool
  | JInt int
  | JFloat real
  | JString string
  | JArray "json list"
  | JObject "(string \<times> json) list"

text \<open>
  The exception classes that can reach \<^verbatim>\<open>update\<close> and the accessors. \<open>ParserError\<close>
  (dateutil) and \<open>JSONDecodeError\<close> derive from \<^verbatim>\<open>ValueError\<close>; \<open>ConnectionError\<close>,
  \<open>Timeout\<close> and the \<^verbatim>\<open>JSONDecodeError\<close> of requests derive from
  \<^verbatim>\<open>RequestException\<close>.
\<close>

datatype exn_class =
    ValueError | ParserError | JSONDecodeError
  | RequestException | ConnectionError | Timeout
  | KeyError | TypeError | IndexError | OverflowError

datatype exn = Exc (cls: exn_class) (exc_args: "string list")

fun is_ValueError :: "exn \<Rightarrow> bool" where
  "is_ValueError (Exc c a) = (c = ValueError \<or> c = ParserError \<or> c = JSONDecodeError)"

fun is_RequestException :: "exn \<Rightarrow> bool" where
  "is_RequestException (Exc c a) =
     (c = RequestException \<or> c = ConnectionError \<or> c = Timeout \<or> c = JSONDecodeError)"

text \<open>\<^verbatim>\<open>obj[key]\<close> with a string key: only a dictionary can be read that way.\<close>

fun getitem :: "json \<Rightarrow> string \<Rightarrow> exn + json" where
  "getitem (JObject kvs) k =
     (case map_of kvs k of
        None \<Rightarrow> Inl (Exc KeyError [k])
      | Some v \<Rightarrow> Inr v)"
| "getitem JNull k = Inl (Exc TypeError [''object is not subscriptable''])"
| "getitem (JBool b) k = Inl (Exc TypeError [''object is not subscriptable''])"
| "getitem (JInt i) k = Inl (Exc TypeError [''object is not subscriptable''])"
| "getitem (JFloat r) k = Inl (Exc TypeError [''object is not subscriptable''])"
| "getitem (JString s) k = Inl (Exc TypeError [''string indices must be integers''])"
| "getitem (JArray xs) k = Inl (Exc TypeError [''list indices must be integers or slices''])"

text \<open>
  What \<^verbatim>\<open>for tide_data in api_data\<close> runs over: the elements of a list, the keys of a
  dictionary, the characters of a string; anything else is not iterable.
\<close>

fun py_iter :: "json \<Rightarrow> exn + json list" where
  "py_iter (JArray xs) = Inr xs"
| "py_iter (JObject kvs) = Inr (map (\<lambda>kv. JString (fst kv)) kvs)"
| "py_iter (JString s) = Inr (map (\<lambda>c. JString [c]) s)"
| "py_iter JNull = Inl (Exc TypeError [''object is not iterable''])"
| "py_iter (JBool b) = Inl (Exc TypeError [''object is not iterable''])"
| "py_iter (JInt i) = Inl (Exc TypeError [''object is not iterable''])"
| "py_iter (JFloat r) = Inl (Exc TypeError [''object is not iterable''])"

text \<open>\<^verbatim>\<open>xs[i]\<close> on a list, for an index \<open>i \<ge> 0\<close>.\<close>

definition list_get :: "'a list \<Rightarrow> nat \<Rightarrow> exn + 'a" where
  "list_get xs i =
     (if i < length xs then Inr (xs ! i)
      else Inl (Exc IndexError [''list index out of range'']))"

subsection \<open>datetime: the fields, adding days, strftime\<close>

record datetime =
  year :: nat
  month :: nat
  day :: nat
  hour :: nat
  minute :: nat
  second :: nat

definition is_leap :: "nat \<Rightarrow> bool" where
  "is_leap y = (y mod 4 = 0 \<and> (y mod 100 \<noteq> 0 \<or> y mod 400 = 0))"

definition days_in_month :: "nat \<Rightarrow> nat \<Rightarrow> nat" where
  "days_in_month y m =
     (if m = 2 then (if is_leap y then 29 else 28)
      else if m = 4 \<or> m = 6 \<or> m = 9 \<or> m = 11 then 30
      else 31)"

definition valid_datetime :: "datetime \<Rightarrow> bool" where
  "valid_datetime d =
     (1 \<le> year d \<and> year d \<le> 9999 \<and> 1 \<le> month d \<and> month d \<le> 12 \<and>
      1 \<le> day d \<and> day d \<le> days_in_month (year d) (month d) \<and>
      hour d < 24 \<and> minute d < 60 \<and> second d < 60)"

definition next_day :: "datetime \<Rightarrow> datetime" where
  "next_day d =
     (if day d < days_in_month (year d) (month d) then d\<lparr>day := day d + 1\<rparr>
      else if month d < 12 then d\<lparr>month := month d + 1, day := 1\<rparr>
      else d\<lparr>year := year d + 1, month := 1, day := 1\<rparr>)"

text \<open>
  \<^verbatim>\<open>d + timedelta(days=n)\<close>: the calendar date moves \<open>n\<close> days on, the time of day
  stays; a result after year 9999 raises \<^verbatim>\<open>OverflowError\<close>.
\<close>

definition add_days :: "datetime \<Rightarrow> nat \<Rightarrow> exn + datetime" where
  "add_days d n =
     (let r = (next_day ^^ n) d
      in if year r \<le> 9999 then Inr r
         else Inl (Exc OverflowError [''date value out of range'']))"

definition digit :: "nat \<Rightarrow> char" where
  "digit n = ''0123456789'' ! (n mod 10)"

fun dec :: "nat \<Rightarrow> string" where
  "dec n = (if n < 10 then [digit n] else dec (n div 10) @ [digit n])"

declare dec.simps [simp del]

definition zfill :: "nat \<Rightarrow> string \<Rightarrow> string" where
  "zfill w s = replicate (w - length s) (CHR ''0'') @ s"

text \<open>
  One strftime directive. \<open>pad\<close> is False after the \<^verbatim>\<open>-\<close> flag (no leading zero).
  The directives are those the sensor's format strings use: \<^verbatim>\<open>%Y %m %d %H %I %M %p\<close>;
  any other character is kept behind its percent sign. \<^verbatim>\<open>datetime.strftime\<close> hands the
  format to the C library, and the sensor runs on Linux: \<^verbatim>\<open>%Y\<close> is the year in decimal
  with no padding, so year 999 prints as \<^verbatim>\<open>999\<close>; the other numeric directives are
  padded to two digits.
\<close>

definition directive :: "bool \<Rightarrow> datetime \<Rightarrow> char \<Rightarrow> string" where
  "directive pad d c =
     (let fill = (\<lambda>w s. if pad then zfill w s else s)
      in if c = CHR ''Y'' then dec (year d)
         else if c = CHR ''m'' then fill 2 (dec (month d))
         else if c = CHR ''d'' then fill 2 (dec (day d))
         else if c = CHR ''H'' then fill 2 (dec (hour d))
         else if c = CHR ''I'' then
           fill 2 (dec (if hour d mod 12 = 0 then 12 else hour d mod 12))
         else if c = CHR ''M'' then fill 2 (dec (minute d))
         else if c = CHR ''p'' then (if hour d < 12 then ''AM'' else ''PM'')
         else [CHR ''%'', c])"

fun strftime :: "datetime \<Rightarrow> string \<Rightarrow> string" where
  "strftime d [] = []"
| "strftime d [c] = [c]"
| "strftime d (c # e # cs) =
     (if c = CHR ''%'' then
        (if e = CHR ''-'' then
           (case cs of
              [] \<Rightarrow> [c, e]
            | f # fs \<Rightarrow> directive False d f @ strftime d fs)
         else directive True d e @ strftime d cs)
      else c # strftime d (e # cs))"

subsection \<open>The sensor\<close>

text \<open>
  \<^verbatim>\<open>NOAATidesData\<close> is a TypedDict, which checks nothing when it is built: \<open>hi_lo\<close>
  and \<open>predicted_wl\<close> hold whatever the response has under \<^verbatim>\<open>"type"\<close> and \<^verbatim>\<open>"v"\<close>.
\<close>

record NOAATidesData =
  time_stamp :: datetime
  hi_lo :: json
  predicted_wl :: json

record sensor =
  name :: string
  station_id :: string
  timezone :: string
  unit_system :: string
  data :: "NOAATidesData list option"

definition init :: "string \<Rightarrow> string \<Rightarrow> string \<Rightarrow> string \<Rightarrow> sensor" where
  "init nm sid tz us =
     \<lparr>name = nm, station_id = sid, timezone = tz, unit_system = us, data = None\<rparr>"

definition extra_state_attributes :: "sensor \<Rightarrow> exn + (string \<rightharpoonup> json)" where
  "extra_state_attributes self =
     (let attr = Map.empty in
      case data self of
        None \<Rightarrow> Inr attr
      | Some ds \<Rightarrow>
          (case list_get ds 1 of
             Inl e \<Rightarrow> Inl e
           | Inr d1 \<Rightarrow>
               if hi_lo d1 = JString ''H'' then
                 (let attr = attr(''high_tide_time'' \<mapsto>
                               JString (strftime (time_stamp d1) ''%Y-%m-%dT%H:%M''));
                      attr = attr(''high_tide_height'' \<mapsto> predicted_wl d1)
                  in case list_get ds 2 of
                       Inl e \<Rightarrow> Inl e
                     | Inr d2 \<Rightarrow>
                         (let attr = attr(''low_tide_time'' \<mapsto>
                                       JString (strftime (time_stamp d2) ''%Y-%m-%dT%H:%M''));
                              attr = attr(''low_tide_height'' \<mapsto> predicted_wl d2)
                          in Inr attr))
               else if hi_lo d1 = JString ''L'' then
                 (let attr = attr(''low_tide_time'' \<mapsto>
                               JString (strftime (time_stamp d1) ''%Y-%m-%dT%H:%M''));
                      attr = attr(''low_tide_height'' \<mapsto> predicted_wl d1)
                  in case list_get ds 2 of
                       Inl e \<Rightarrow> Inl e
                     | Inr d2 \<Rightarrow>
                         (let attr = attr(''high_tide_time'' \<mapsto>
                                       JString (strftime (time_stamp d2) ''%Y-%m-%dT%H:%M''));
                              attr = attr(''high_tide_height'' \<mapsto> predicted_wl d2)
                          in Inr attr))
               else Inr attr))"

definition native_value :: "sensor \<Rightarrow> exn + string option" where
  "native_value self =
     (case data self of
        None \<Rightarrow> Inr None
      | Some ds \<Rightarrow>
          (case list_get ds 0 of
             Inl e \<Rightarrow> Inl e
           | Inr d0 \<Rightarrow>
               (let api_time = time_stamp d0 in
                if hi_lo d0 = JString ''H'' then
                  (let tidetime = strftime api_time ''%-I:%M %p''
                   in Inr (Some (''High tide at '' @ tidetime)))
                else if hi_lo d0 = JString ''L'' then
                  (let tidetime = strftime api_time ''%-I:%M %p''
                   in Inr (Some (''Low tide at '' @ tidetime)))
                else Inr None)))"

subsection \<open>update\<close>

text \<open>
  What \<^verbatim>\<open>update\<close> reads from outside: the clock, the HTTP library and dateutil's
  parser. \<open>http_get\<close> is the result of \<^verbatim>\<open>requests.get\<close> for a request, \<open>json_body\<close> the
  result of \<^verbatim>\<open>response.json()\<close>, \<open>parse\<close> the result of \<^verbatim>\<open>parser.parse\<close>; each either
  raises or returns.
\<close>

record request =
  url :: string
  params :: "(string \<times> string) list"
  timeout :: nat

record response =
  json_body :: "exn + json"

record world =
  now :: datetime
  http_get :: "request \<Rightarrow> exn + response"
  parse :: "json \<Rightarrow> exn + datetime"

datatype log_level = DEBUG | ERROR

datatype log_arg = ArgJson json | ArgStr string | ArgArgs "string list" | ArgExc exn

record log_record =
  level :: log_level
  msg :: string
  log_args :: "log_arg list"

record outcome =
  sensor_after :: sensor
  raised :: "exn option"
  requests_sent :: "request list"
  logged :: "log_record list"

definition DATA_GETTER_URL :: string where
  "DATA_GETTER_URL = ''https://api.tidesandcurrents.noaa.gov/api/prod/datagetter''"

text \<open>One \<^verbatim>\<open>NOAATidesData(...)\<close> of the comprehension, its arguments read left to right.\<close>

definition make_tide :: "(json \<Rightarrow> exn + datetime) \<Rightarrow> json \<Rightarrow> exn + NOAATidesData" where
  "make_tide prs tide_data =
     (case getitem tide_data ''t'' of
        Inl e \<Rightarrow> Inl e
      | Inr t \<Rightarrow>
          (case prs t of
             Inl e \<Rightarrow> Inl e
           | Inr ts \<Rightarrow>
               (case getitem tide_data ''type'' of
                  Inl e \<Rightarrow> Inl e
                | Inr ty \<Rightarrow>
                    (case getitem tide_data ''v'' of
                       Inl e \<Rightarrow> Inl e
                     | Inr v \<Rightarrow> Inr \<lparr>time_stamp = ts, hi_lo = ty, predicted_wl = v\<rparr>))))"

text \<open>The list comprehension: it stops at the first element that raises.\<close>

fun comprehension :: "('a \<Rightarrow> exn + 'b) \<Rightarrow> 'a list \<Rightarrow> exn + 'b list" where
  "comprehension f [] = Inr []"
| "comprehension f (x # xs) =
     (case f x of
        Inl e \<Rightarrow> Inl e
      | Inr y \<Rightarrow>
          (case comprehension f xs of
             Inl e \<Rightarrow> Inl e
           | Inr ys \<Rightarrow> Inr (y # ys)))"

definition build_params :: "sensor \<Rightarrow> datetime \<Rightarrow> datetime \<Rightarrow> (string \<times> string) list" where
  "build_params self begin finish =
     [(''begin_date'', strftime begin ''%Y%m%d %H:%M''),
      (''end_date'', strftime finish ''%Y%m%d %H:%M''),
      (''product'', ''predictions''),
      (''datum'', ''MLLW''),
      (''interval'', ''hilo''),
      (''units'', unit_system self),
      (''time_zone'', timezone self),
      (''format'', ''json''),
      (''station'', station_id self)]"

text \<open>The call \<^verbatim>\<open>requests.get(DATA_GETTER_URL, params=params, timeout=10)\<close>.\<close>

definition build_request :: "sensor \<Rightarrow> datetime \<Rightarrow> datetime \<Rightarrow> request" where
  "build_request self begin finish =
     \<lparr>url = DATA_GETTER_URL, params = build_params self begin finish, timeout = 10\<rparr>"

text \<open>The body of the \<^verbatim>\<open>try\<close> from \<^verbatim>\<open>requests.get\<close> to the end of the comprehension.\<close>

definition fetch :: "world \<Rightarrow> request \<Rightarrow> exn + (json \<times> NOAATidesData list)" where
  "fetch w req =
     (case http_get w req of
        Inl e \<Rightarrow> Inl e
      | Inr resp \<Rightarrow>
          (case json_body resp of
             Inl e \<Rightarrow> Inl e
           | Inr body \<Rightarrow>
               (case getitem body ''predictions'' of
                  Inl e \<Rightarrow> Inl e
                | Inr api_data \<Rightarrow>
                    (case py_iter api_data of
                       Inl e \<Rightarrow> Inl e
                     | Inr items \<Rightarrow>
                         (case comprehension (make_tide (parse w)) items of
                            Inl e \<Rightarrow> Inl e
                          | Inr ds \<Rightarrow> Inr (api_data, ds))))))"

definition update :: "world \<Rightarrow> sensor \<Rightarrow> outcome" where
  "update w self =
     (let begin = now w in
      case add_days begin 2 of
        Inl e \<Rightarrow> \<lparr>sensor_after = self, raised = Some e, requests_sent = [], logged = []\<rparr>
      | Inr finish \<Rightarrow>
          (let req = build_request self begin finish
           in case fetch w req of
                Inr (api_data, ds) \<Rightarrow>
                  \<lparr>sensor_after = self\<lparr>data := Some ds\<rparr>, raised = None,
                   requests_sent = [req],
                   logged =
                     [\<lparr>level = DEBUG, msg = ''Data = %s'', log_args = [ArgJson api_data]\<rparr>,
                      \<lparr>level = DEBUG,
                       msg = ''Recent Tide data queried with start time set to %s'',
                       log_args = [ArgStr (strftime begin ''%m-%d-%Y %H:%M'')]\<rparr>]\<rparr>
              | Inl err \<Rightarrow>
                  if is_ValueError err then
                    \<lparr>sensor_after = self\<lparr>data := None\<rparr>, raised = None,
                     requests_sent = [req],
                     logged =
                       [\<lparr>level = ERROR, msg = ''Check NOAA Tides and Currents: %s'',
                         log_args = [ArgArgs (exc_args err)]\<rparr>]\<rparr>
                  else if is_RequestException err then
                    \<lparr>sensor_after = self\<lparr>data := None\<rparr>, raised = None,
                     requests_sent = [req],
                     logged =
                       [\<lparr>level = ERROR,
                         msg = ''Error fetching NOAA Tides and Currents data: %s'',
                         log_args = [ArgExc err]\<rparr>]\<rparr>
                  else
                    \<lparr>sensor_after = self, raised = Some err, requests_sent = [req],
                     logged = []\<rparr>))"

subsection \<open>The formats of the specification, digit by digit\<close>





definition hour12 :: "datetime \<Rightarrow> nat" where
  "hour12 d = (if hour d mod 12 = 0 then 12 else hour d mod 12)"

definition fmt_clock12 :: "datetime \<Rightarrow> string" where
  "fmt_clock12 d =
     (if hour12 d < 10 then [digit (hour12 d)] else [CHR ''1'', digit (hour12 d)])
     @ [CHR '':'', digit (minute d div 10), digit (minute d), CHR '' '']
     @ (if hour d < 12 then ''AM'' else ''PM'')"

subsection \<open>Example inputs\<close>

text \<open>
  A poll on 1 June 2024 at 06:30, station 8721164, and three predictions: a low tide at
  07:02, a high tide at 13:05 and a low tide at 19:31. \<open>ex_parse\<close> reads these three time
  strings, rejects every other string as dateutil does (\<^verbatim>\<open>ParserError\<close>) and raises
  \<^verbatim>\<open>TypeError\<close> on what is not a string.
\<close>

definition ex_now :: datetime where
  "ex_now = \<lparr>year = 2024, month = 6, day = 1, hour = 6, minute = 30, second = 12\<rparr>"


definition ex_t0 :: datetime where
  "ex_t0 = \<lparr>year = 2024, month = 6, day = 1, hour = 7, minute = 2, second = 0\<rparr>"

definition ex_t1 :: datetime where
  "ex_t1 = \<lparr>year = 2024, month = 6, day = 1, hour = 13, minute = 5, second = 0\<rparr>"

definition ex_t2 :: datetime where
  "ex_t2 = \<lparr>year = 2024, month = 6, day = 1, hour = 19, minute = 31, second = 0\<rparr>"




definition ex_parse :: "json \<Rightarrow> exn + datetime" where
  "ex_parse j =
     (case j of
        JString s \<Rightarrow>
          if s = ''2024-06-01 07:02'' then Inr ex_t0
          else if s = ''2024-06-01 13:05'' then Inr ex_t1
          else if s = ''2024-06-01 19:31'' then Inr ex_t2
          else Inl (Exc ParserError [''Unknown string format: %s'', s])
      | _ \<Rightarrow> Inl (Exc TypeError [''Parser must be a string or character stream'']))"

definition ex_record :: "string \<Rightarrow> json \<Rightarrow> string \<Rightarrow> json" where
  "ex_record t v ty = JObject [(''t'', JString t), (''v'', v), (''type'', JString ty)]"

definition ex_world :: "(exn + response) \<Rightarrow> world" where
  "ex_world r = \<lparr>now = ex_now, http_get = (\<lambda>req. r), parse = ex_parse\<rparr>"

definition ex_sensor :: sensor where
  "ex_sensor = init ''NOAA Tides'' ''8721164'' ''lst_ldt'' ''english''"

text \<open>Series held by a sensor: low-high-low, high-low-high, and a short one of two events.\<close>

definition ex_low :: "datetime \<Rightarrow> NOAATidesData" where
  "ex_low t = \<lparr>time_stamp = t, hi_lo = JString ''L'', predicted_wl = JFloat 0.4\<rparr>"

definition ex_high :: "datetime \<Rightarrow> NOAATidesData" where
  "ex_high t = \<lparr>time_stamp = t, hi_lo = JString ''H'', predicted_wl = JFloat 2.3\<rparr>"

definition ex_series_LHL :: "NOAATidesData list" where
  "ex_series_LHL = [ex_low ex_t0, ex_high ex_t1, ex_low ex_t2]"

definition ex_series_HLH :: "NOAATidesData list" where
  "ex_series_HLH = [ex_high ex_t0, ex_low ex_t1, ex_high ex_t2]"


definition ex_series_short :: "NOAATidesData list" where
  "ex_series_short = [ex_low ex_t0, ex_high ex_t1]"

text \<open>
  Response bodies: the three predictions with numeric levels; the same with the levels as
  strings, as the service sends them; the service's error body, which has no
  \<^verbatim>\<open>"predictions"\<close>; and predictions whose second time string is not a time.
\<close>

definition ex_body_numbers :: json where
  "ex_body_numbers =
     JObject [(''predictions'',
       JArray [ex_record ''2024-06-01 07:02'' (JFloat 0.4) ''L'',
               ex_record ''2024-06-01 13:05'' (JFloat 2.3) ''H'',
               ex_record ''2024-06-01 19:31'' (JFloat 0.5) ''L''])]"

definition ex_body_strings :: json where
  "ex_body_strings =
     JObject [(''predictions'',
       JArray [ex_record ''2024-06-01 07:02'' (JString ''0.4'') ''L'',
               ex_record ''2024-06-01 13:05'' (JString ''2.3'') ''H'',
               ex_record ''2024-06-01 19:31'' (JString ''0.5'') ''L''])]"

definition ex_body_error :: json where
  "ex_body_error =
     JObject [(''error'', JObject [(''message'', JString ''No Predictions data was found'')])]"

definition ex_body_bad_time :: json where
  "ex_body_bad_time =
     JObject [(''predictions'',
       JArray [ex_record ''2024-06-01 07:02'' (JFloat 0.4) ''L'',
               ex_record ''soon'' (JFloat 2.3) ''H''])]"

definition ex_ok :: "json \<Rightarrow> exn + response" where
  "ex_ok body = Inr \<lparr>json_body = Inr body\<rparr>"

subsection \<open>What an absorbed failure leaves behind\<close>

text \<open>
  The outcome the specification asks of a failed poll: the series is unavailable, nothing
  is raised to the caller, and one record went to the log at error level.
\<close>

definition absorbed :: "outcome \<Rightarrow> bool" where
  "absorbed r =
     (data (sensor_after r) = None \<and> raised r = None \<and>
      (\<exists>entry. logged r = [entry] \<and> level entry = ERROR))"

section \<open>Properties\<close>

subsection \<open>Formatting\<close>

lemma dec_lt10: "n < 10 \<Longrightarrow> dec n = [digit n]"
  by (subst dec.simps) simp

lemma dec_lt100: "10 \<le> n \<Longrightarrow> n < 100 \<Longrightarrow> dec n = [digit (n div 10), digit n]"
  by (subst dec.simps) (simp add: dec_lt10)

lemma dec_lt1000:
  "100 \<le> n \<Longrightarrow> n < 1000 \<Longrightarrow> dec n = [digit (n div 100), digit (n div 10), digit n]"
  by (subst dec.simps) (simp add: dec_lt100 div_mult2_eq [symmetric])

lemma dec_lt10000:
  "1000 \<le> n \<Longrightarrow> n < 10000 \<Longrightarrow>
   dec n = [digit (n div 1000), digit (n div 100), digit (n div 10), digit n]"
  by (subst dec.simps) (simp add: dec_lt1000 div_mult2_eq [symmetric])

lemma digit_small: "n < 10 \<Longrightarrow> digit (n div 10) = CHR ''0''"
  by (simp add: digit_def)

lemma zfill2_dec: "n < 100 \<Longrightarrow> zfill 2 (dec n) = [digit (n div 10), digit n]"
  by (cases "n < 10") (simp_all add: zfill_def dec_lt10 dec_lt100 digit_def)

lemma days_in_month_le: "days_in_month y m \<le> 31"
  by (simp add: days_in_month_def)

lemma valid_datetime_bounds:
  assumes "valid_datetime d"
  shows "year d < 10000" "month d < 100" "day d < 100" "hour d < 100" "minute d < 100"
proof -
  from assms have "day d \<le> days_in_month (year d) (month d)"
    by (simp add: valid_datetime_def)
  with days_in_month_le [of "year d" "month d"] show "day d < 100" by linarith
  from assms show "year d < 10000" "month d < 100" "hour d < 100" "minute d < 100"
    by (simp_all add: valid_datetime_def)
qed





lemma hour12_range: "1 \<le> hour12 d \<and> hour12 d \<le> 12"
  by (simp add: hour12_def)

lemma strftime_clock12:
  "valid_datetime d \<Longrightarrow> strftime d ''%-I:%M %p'' = fmt_clock12 d"
proof -
  assume v: "valid_datetime d"
  have "dec (hour12 d) = (if hour12 d < 10 then [digit (hour12 d)] else [CHR ''1'', digit (hour12 d)])"
  proof (cases "hour12 d < 10")
    case True then show ?thesis by (simp add: dec_lt10)
  next
    case False
    with hour12_range [of d] have "hour12 d div 10 = 1" by simp
    with False hour12_range [of d] show ?thesis by (simp add: dec_lt100 digit_def)
  qed
  with v show ?thesis
    by (simp add: valid_datetime_bounds directive_def fmt_clock12_def zfill2_dec
        hour12_def [symmetric])
qed

lemma clock12_no_leading_zero: "hd (fmt_clock12 d) \<noteq> CHR ''0''"
proof (cases "hour12 d < 10")
  case True
  with hour12_range [of d] have "hour12 d \<in> {1, 2, 3, 4, 5, 6, 7, 8, 9}" by auto
  then have "digit (hour12 d) \<noteq> CHR ''0''"
    by (elim insertE emptyE) (simp_all add: digit_def)
  with True show ?thesis by (simp add: fmt_clock12_def)
next
  case False then show ?thesis by (simp add: fmt_clock12_def)
qed

subsection \<open>The accessors\<close>

text \<open>
  C6. A freshly constructed sensor holds no series: \<open>native_value\<close> returns \<^verbatim>\<open>None\<close> and
  \<open>extra_state_attributes\<close> returns the empty dictionary, before any update. Construction
  is a total function of its four arguments that stores each of them unchanged.
\<close>

theorem init_unavailable:
  "native_value (init nm sid tz us) = Inr None \<and>
   extra_state_attributes (init nm sid tz us) = Inr Map.empty \<and>
   data (init nm sid tz us) = None \<and>
   name (init nm sid tz us) = nm \<and> station_id (init nm sid tz us) = sid \<and>
   timezone (init nm sid tz us) = tz \<and> unit_system (init nm sid tz us) = us"
  by (simp add: init_def native_value_def extra_state_attributes_def)

text \<open>
  C5. With a series that has a first event, \<open>native_value\<close> looks at that event only:
  \<^verbatim>\<open>"High tide at "\<close> plus the time for kind \<^verbatim>\<open>"H"\<close>, \<^verbatim>\<open>"Low tide at "\<close> plus the time for
  kind \<^verbatim>\<open>"L"\<close>, \<^verbatim>\<open>None\<close> for any other kind. The time is hour:minute with AM/PM, and
  its first character is never a zero.
\<close>

theorem native_value_first_event:
  assumes "data self = Some (e # es)" and "valid_datetime (time_stamp e)"
  shows "native_value self =
           Inr (if hi_lo e = JString ''H''
                then Some (''High tide at '' @ fmt_clock12 (time_stamp e))
                else if hi_lo e = JString ''L''
                then Some (''Low tide at '' @ fmt_clock12 (time_stamp e))
                else None) \<and>
         hd (fmt_clock12 (time_stamp e)) \<noteq> CHR ''0''"
  using assms
  by (simp add: native_value_def Let_def list_get_def strftime_clock12
      clock12_no_leading_zero del: strftime.simps)

theorem native_value_first_event_witness:
  "native_value (ex_sensor\<lparr>data := Some [ex_high ex_t1]\<rparr>) =
     Inr (Some ''High tide at 1:05 PM'') \<and>
   native_value (ex_sensor\<lparr>data := Some ex_series_LHL\<rparr>) =
     Inr (Some ''Low tide at 7:02 AM'') \<and>
   native_value (ex_sensor\<lparr>data := Some [ex_high ex_t1\<lparr>hi_lo := JString ''HH''\<rparr>]\<rparr>) =
     Inr None"
  using
    native_value_first_event
      [of "ex_sensor\<lparr>data := Some [ex_high ex_t1]\<rparr>" "ex_high ex_t1" "[]"]
    native_value_first_event
      [of "ex_sensor\<lparr>data := Some ex_series_LHL\<rparr>" "ex_low ex_t0"
          "[ex_high ex_t1, ex_low ex_t2]"]
    native_value_first_event
      [of "ex_sensor\<lparr>data := Some [ex_high ex_t1\<lparr>hi_lo := JString ''HH''\<rparr>]\<rparr>"
          "ex_high ex_t1\<lparr>hi_lo := JString ''HH''\<rparr>" "[]"]
  by (simp add: ex_series_LHL_def ex_low_def ex_high_def ex_t0_def ex_t1_def
      valid_datetime_def days_in_month_def fmt_clock12_def hour12_def digit_def)




text \<open>
  C10. With at least three events whose second event has a kind that is neither \<^verbatim>\<open>"H"\<close>
  nor \<^verbatim>\<open>"L"\<close>, both branches are skipped and the attributes are the empty dictionary.
\<close>

theorem extra_state_attributes_other_kind:
  assumes "data self = Some ds" and "3 \<le> length ds"
    and "hi_lo (ds ! 1) \<noteq> JString ''H''" and "hi_lo (ds ! 1) \<noteq> JString ''L''"
  shows "extra_state_attributes self = Inr Map.empty"
  using assms by (simp add: extra_state_attributes_def list_get_def)

theorem extra_state_attributes_other_kind_witness:
  "extra_state_attributes
     (ex_sensor\<lparr>data :=
        Some [ex_low ex_t0, ex_high ex_t1\<lparr>hi_lo := JString ''HH''\<rparr>, ex_low ex_t2]\<rparr>)
     = Inr Map.empty"
  using extra_state_attributes_other_kind
    [of "ex_sensor\<lparr>data :=
           Some [ex_low ex_t0, ex_high ex_t1\<lparr>hi_lo := JString ''HH''\<rparr>, ex_low ex_t2]\<rparr>"
        "[ex_low ex_t0, ex_high ex_t1\<lparr>hi_lo := JString ''HH''\<rparr>, ex_low ex_t2]"]
  by (simp add: ex_low_def ex_high_def)

text \<open>
  C1. A series of fewer than three events is not contained: with two events of which the
  second is a high tide, \<open>extra_state_attributes\<close> reads \<^verbatim>\<open>self.data[2]\<close> and raises
  \<^verbatim>\<open>IndexError\<close>; with one event it raises on \<^verbatim>\<open>self.data[1]\<close>. Nothing in the
  accessor catches it.
\<close>

theorem extra_state_attributes_short_series_raises:
  "extra_state_attributes (ex_sensor\<lparr>data := Some ex_series_short\<rparr>) =
     Inl (Exc IndexError [''list index out of range'']) \<and>
   extra_state_attributes (ex_sensor\<lparr>data := Some [ex_high ex_t1]\<rparr>) =
     Inl (Exc IndexError [''list index out of range''])"
  by (simp add: extra_state_attributes_def ex_series_short_def ex_high_def ex_low_def
      list_get_def)

subsection \<open>Dates, the comprehension and the shape of update\<close>




lemma add_days_2:
  "add_days d 2 =
     (if year (next_day (next_day d)) \<le> 9999 then Inr (next_day (next_day d))
      else Inl (Exc OverflowError [''date value out of range'']))"
  by (simp add: add_days_def numeral_2_eq_2)



lemma comprehension_Inr:
  "comprehension f xs = Inr ys \<Longrightarrow>
   length ys = length xs \<and> (\<forall>k<length xs. f (xs ! k) = Inr (ys ! k))"
proof (induction xs arbitrary: ys)
  case Nil
  then show ?case by simp
next
  case (Cons x xs)
  from Cons.prems obtain y zs where y: "f x = Inr y" and zs: "comprehension f xs = Inr zs"
    and ys: "ys = y # zs"
    by (auto split: sum.splits)
  from Cons.IH [OF zs] y ys show ?case
    by (auto simp: nth_Cons split: nat.splits)
qed

lemma comprehension_Inl:
  "k < length xs \<Longrightarrow> (\<forall>j<k. \<exists>y. f (xs ! j) = Inr y) \<Longrightarrow> f (xs ! k) = Inl e \<Longrightarrow>
   comprehension f xs = Inl e"
proof (induction xs arbitrary: k)
  case Nil
  then show ?case by simp
next
  case (Cons x xs)
  show ?case
  proof (cases k)
    case 0
    with Cons.prems show ?thesis by simp
  next
    case (Suc n)
    with Cons.prems(2) obtain y where y: "f x = Inr y" by fastforce
    from Suc Cons.prems have a: "n < length xs" and c: "f (xs ! n) = Inl e"
      and b: "\<forall>j<n. \<exists>y. f (xs ! j) = Inr y"
      by auto
    have "comprehension f xs = Inl e" by (rule Cons.IH [OF a b c])
    with y show ?thesis by simp
  qed
qed

lemma make_tide_Inr:
  "make_tide prs td = Inr ev \<Longrightarrow>
   \<exists>t. getitem td ''t'' = Inr t \<and> prs t = Inr (time_stamp ev) \<and>
       getitem td ''type'' = Inr (hi_lo ev) \<and> getitem td ''v'' = Inr (predicted_wl ev)"
  by (auto simp: make_tide_def split: sum.splits)

lemma make_tide_parse_error:
  "getitem td ''t'' = Inr t \<Longrightarrow> prs t = Inl e \<Longrightarrow> make_tide prs td = Inl e"
  by (simp add: make_tide_def)

lemma update_success:
  assumes "raised (update w self) = None" and "data (sensor_after (update w self)) = Some evs"
  shows "\<exists>finish api_data. add_days (now w) 2 = Inr finish \<and>
           fetch w (build_request self (now w) finish) = Inr (api_data, evs)"
  using assms
  by (auto simp: update_def Let_def split: sum.splits if_splits prod.splits)

lemma fetch_Inr:
  assumes "fetch w req = Inr (api_data, evs)"
  shows "\<exists>resp body items.
           http_get w req = Inr resp \<and> json_body resp = Inr body \<and>
           getitem body ''predictions'' = Inr api_data \<and> py_iter api_data = Inr items \<and>
           comprehension (make_tide (parse w)) items = Inr evs"
  using assms by (auto simp: fetch_def split: sum.splits)

lemma update_of_fetch:
  assumes "add_days (now w) 2 = Inr finish"
    and "fetch w (build_request self (now w) finish) = Inr (api_data, evs)"
  shows "sensor_after (update w self) = self\<lparr>data := Some evs\<rparr>" and "raised (update w self) = None"
  using assms by (simp_all add: update_def Let_def)

lemma fetch_error_handled:
  assumes "add_days (now w) 2 = Inr finish"
    and "fetch w (build_request self (now w) finish) = Inl e"
    and "is_ValueError e \<or> is_RequestException e"
  shows "data (sensor_after (update w self)) = None \<and> raised (update w self) = None \<and>
         (\<exists>r. logged (update w self) = [r] \<and> level r = ERROR)"
  using assms by (auto simp: update_def Let_def)

lemma build_request_data: "build_request (self\<lparr>data := old\<rparr>) b f = build_request self b f"
  by (simp add: build_request_def build_params_def)

subsection \<open>The example inputs, evaluated\<close>

lemma ex_add_days: "add_days ex_now 2 = Inr (ex_now\<lparr>day := 3\<rparr>)"
  by (simp add: add_days_2 next_day_def days_in_month_def ex_now_def)



lemma ex_world_sel:
  "now (ex_world r) = ex_now" "http_get (ex_world r) req = r" "parse (ex_world r) = ex_parse"
  by (simp_all add: ex_world_def)

lemma ex_fetch_numbers:
  "fetch (ex_world (ex_ok ex_body_numbers)) req =
     Inr (JArray [ex_record ''2024-06-01 07:02'' (JFloat 0.4) ''L'',
                  ex_record ''2024-06-01 13:05'' (JFloat 2.3) ''H'',
                  ex_record ''2024-06-01 19:31'' (JFloat 0.5) ''L''],
          [\<lparr>time_stamp = ex_t0, hi_lo = JString ''L'', predicted_wl = JFloat 0.4\<rparr>,
           \<lparr>time_stamp = ex_t1, hi_lo = JString ''H'', predicted_wl = JFloat 2.3\<rparr>,
           \<lparr>time_stamp = ex_t2, hi_lo = JString ''L'', predicted_wl = JFloat 0.5\<rparr>])"
  by (simp add: fetch_def ex_world_sel ex_ok_def ex_body_numbers_def ex_record_def
      make_tide_def ex_parse_def)

lemma ex_fetch_strings:
  "fetch (ex_world (ex_ok ex_body_strings)) req =
     Inr (JArray [ex_record ''2024-06-01 07:02'' (JString ''0.4'') ''L'',
                  ex_record ''2024-06-01 13:05'' (JString ''2.3'') ''H'',
                  ex_record ''2024-06-01 19:31'' (JString ''0.5'') ''L''],
          [\<lparr>time_stamp = ex_t0, hi_lo = JString ''L'', predicted_wl = JString ''0.4''\<rparr>,
           \<lparr>time_stamp = ex_t1, hi_lo = JString ''H'', predicted_wl = JString ''2.3''\<rparr>,
           \<lparr>time_stamp = ex_t2, hi_lo = JString ''L'', predicted_wl = JString ''0.5''\<rparr>])"
  by (simp add: fetch_def ex_world_sel ex_ok_def ex_body_strings_def ex_record_def
      make_tide_def ex_parse_def)

lemma ex_fetch_error:
  "fetch (ex_world (ex_ok ex_body_error)) req = Inl (Exc KeyError [''predictions''])"
  by (simp add: fetch_def ex_world_sel ex_ok_def ex_body_error_def)

lemma ex_fetch_bad_time:
  "fetch (ex_world (ex_ok ex_body_bad_time)) req =
     Inl (Exc ParserError [''Unknown string format: %s'', ''soon''])"
  by (simp add: fetch_def ex_world_sel ex_ok_def ex_body_bad_time_def ex_record_def
      make_tide_def ex_parse_def)

subsection \<open>update\<close>

text \<open>
  C9. \<open>update\<close> leaves the configuration alone: name, station id, time zone and unit
  system of the sensor are the same after the call, whatever the outside world answers
  and whether the call returns or raises. Only \<open>data\<close> can change.
\<close>

theorem update_keeps_config:
  "name (sensor_after (update w self)) = name self \<and>
   station_id (sensor_after (update w self)) = station_id self \<and>
   timezone (sensor_after (update w self)) = timezone self \<and>
   unit_system (sensor_after (update w self)) = unit_system self"
  by (simp add: update_def Let_def split: sum.splits prod.splits)




text \<open>
  What the two handlers cover. A \<^verbatim>\<open>RequestException\<close> or \<^verbatim>\<open>ValueError\<close> is absorbed wherever
  it arises: raised by \<^verbatim>\<open>requests.get\<close> (network error, timeout), raised by
  \<^verbatim>\<open>response.json()\<close> (a body that is not JSON), or raised by the date parser on the time
  string of the \<open>k\<close>-th prediction when the earlier ones were read. The series is then
  unavailable whatever it was before, one error is logged and nothing is raised.
\<close>

lemma handlers_absorb_request_and_value_errors:
  assumes "add_days (now w) 2 = Inr finish" and "req = build_request self (now w) finish"
    and "is_RequestException e \<or> is_ValueError e"
  shows "(http_get w req = Inl e \<longrightarrow> absorbed (update w self)) \<and>
         (http_get w req = Inr resp \<and> json_body resp = Inl e \<longrightarrow> absorbed (update w self)) \<and>
         (http_get w req = Inr resp \<and> json_body resp = Inr body \<and>
          getitem body ''predictions'' = Inr (JArray recs) \<and> k < length recs \<and>
          (\<forall>j<k. \<exists>ev. make_tide (parse w) (recs ! j) = Inr ev) \<and>
          getitem (recs ! k) ''t'' = Inr t \<and> parse w t = Inl e
          \<longrightarrow> absorbed (update w self))"
proof -
  have *: "absorbed (update w self)" if "fetch w req = Inl e"
    using fetch_error_handled [OF assms(1), of self e] that assms(2,3)
    by (auto simp: absorbed_def)
  have "fetch w req = Inl e" if "http_get w req = Inl e"
    using that by (simp add: fetch_def)
  moreover have "fetch w req = Inl e" if "http_get w req = Inr resp" "json_body resp = Inl e"
    using that by (simp add: fetch_def)
  moreover have "fetch w req = Inl e"
    if "http_get w req = Inr resp" "json_body resp = Inr body"
      "getitem body ''predictions'' = Inr (JArray recs)" "k < length recs"
      "\<forall>j<k. \<exists>ev. make_tide (parse w) (recs ! j) = Inr ev"
      "getitem (recs ! k) ''t'' = Inr t" "parse w t = Inl e"
  proof -
    from that(6,7) have "make_tide (parse w) (recs ! k) = Inl e"
      by (rule make_tide_parse_error)
    with that(4,5) have "comprehension (make_tide (parse w)) recs = Inl e"
      by (rule comprehension_Inl)
    with that(1,2,3) show ?thesis by (simp add: fetch_def)
  qed
  ultimately show ?thesis using * by blast
qed

lemma handlers_absorb_examples:
  "absorbed (update (ex_world (Inl (Exc Timeout [''timed out'']))) (ex_sensor\<lparr>data := Some ex_series_LHL\<rparr>)) \<and>
   absorbed (update (ex_world (Inr \<lparr>json_body = Inl (Exc JSONDecodeError [''Expecting value''])\<rparr>))
               (ex_sensor\<lparr>data := Some ex_series_LHL\<rparr>)) \<and>
   absorbed (update (ex_world (ex_ok ex_body_bad_time)) (ex_sensor\<lparr>data := Some ex_series_LHL\<rparr>))"
proof -
  let ?s = "ex_sensor\<lparr>data := Some ex_series_LHL\<rparr>"
  let ?req = "build_request ?s ex_now (ex_now\<lparr>day := 3\<rparr>)"
  have a: "add_days (now (ex_world r)) 2 = Inr (ex_now\<lparr>day := 3\<rparr>)" for r
    by (simp add: ex_world_sel ex_add_days)
  have q: "?req = build_request ?s (now (ex_world r)) (ex_now\<lparr>day := 3\<rparr>)" for r
    by (simp add: ex_world_sel)
  have 1: "absorbed (update (ex_world (Inl (Exc Timeout [''timed out'']))) ?s)"
    using handlers_absorb_request_and_value_errors [OF a q, of "Exc Timeout [''timed out'']"]
    by (simp add: ex_world_sel)
  have 2: "absorbed (update (ex_world (Inr \<lparr>json_body = Inl (Exc JSONDecodeError [''Expecting value''])\<rparr>)) ?s)"
    using handlers_absorb_request_and_value_errors [OF a q, of "Exc JSONDecodeError [''Expecting value'']" _
        "\<lparr>json_body = Inl (Exc JSONDecodeError [''Expecting value''])\<rparr>"]
    by (simp add: ex_world_sel)
  have 3: "absorbed (update (ex_world (ex_ok ex_body_bad_time)) ?s)"
    using handlers_absorb_request_and_value_errors [OF a q, of "Exc ParserError [''Unknown string format: %s'', ''soon'']"
        "ex_ok ex_body_bad_time" "\<lparr>json_body = Inr ex_body_bad_time\<rparr>" ex_body_bad_time
        "[ex_record ''2024-06-01 07:02'' (JFloat 0.4) ''L'', ex_record ''soon'' (JFloat 2.3) ''H'']"
        1 "JString ''soon''"]
    by (simp add: ex_world_sel ex_ok_def ex_body_bad_time_def ex_record_def make_tide_def
        ex_parse_def)
  from 1 2 3 show ?thesis by simp
qed

text \<open>
  C3. A failure the handlers miss: on the service's error body, which has no
  \<^verbatim>\<open>"predictions"\<close>, \<^verbatim>\<open>response.json()["predictions"]\<close> raises \<^verbatim>\<open>KeyError\<close> inside the
  \<^verbatim>\<open>try\<close>, and neither \<^verbatim>\<open>except\<close> clause catches it. It reaches the caller, the previous
  series stays in place and nothing is logged.
\<close>

theorem update_missing_predictions_propagates:
  "raised (update (ex_world (ex_ok ex_body_error)) (ex_sensor\<lparr>data := Some ex_series_LHL\<rparr>)) =
     Some (Exc KeyError [''predictions'']) \<and>
   data (sensor_after (update (ex_world (ex_ok ex_body_error))
                         (ex_sensor\<lparr>data := Some ex_series_LHL\<rparr>))) = Some ex_series_LHL \<and>
   logged (update (ex_world (ex_ok ex_body_error)) (ex_sensor\<lparr>data := Some ex_series_LHL\<rparr>)) = []"
  by (simp add: update_def Let_def ex_world_sel ex_add_days ex_fetch_error)

text \<open>
  C4. The level of a prediction is stored as the response has it. The service sends
  levels as strings, so the events hold the string \<^verbatim>\<open>"2.3"\<close> and the attribute
  \<^verbatim>\<open>high_tide_height\<close> is that string, not the number 2.3.
\<close>

theorem update_keeps_level_strings:
  "data (sensor_after (update (ex_world (ex_ok ex_body_strings)) ex_sensor)) =
     Some [\<lparr>time_stamp = ex_t0, hi_lo = JString ''L'', predicted_wl = JString ''0.4''\<rparr>,
           \<lparr>time_stamp = ex_t1, hi_lo = JString ''H'', predicted_wl = JString ''2.3''\<rparr>,
           \<lparr>time_stamp = ex_t2, hi_lo = JString ''L'', predicted_wl = JString ''0.5''\<rparr>] \<and>
   extra_state_attributes (sensor_after (update (ex_world (ex_ok ex_body_strings)) ex_sensor)) =
     Inr [''high_tide_time'' \<mapsto> JString ''2024-06-01T13:05'',
          ''high_tide_height'' \<mapsto> JString ''2.3'',
          ''low_tide_time'' \<mapsto> JString ''2024-06-01T19:31'',
          ''low_tide_height'' \<mapsto> JString ''0.5'']"
  by (simp add: update_def Let_def ex_world_sel ex_add_days ex_fetch_strings
      extra_state_attributes_def list_get_def directive_def zfill_def ex_t1_def ex_t2_def
      dec_lt10 dec_lt100 dec_lt10000 digit_def)

text \<open>
  C7. A poll that returns with a series has read it from the response in order: the
  events are as many as the items of \<^verbatim>\<open>"predictions"\<close> (for an array, its elements), and
  the \<open>k\<close>-th event has the parsed \<^verbatim>\<open>"t"\<close>, the \<^verbatim>\<open>"type"\<close> and the \<^verbatim>\<open>"v"\<close> of the \<open>k\<close>-th
  item. The new series does not depend on the series held before: starting from any
  other one gives the same result.
\<close>

theorem update_replaces_series_in_order:
  assumes "raised (update w self) = None" and "data (sensor_after (update w self)) = Some evs"
  shows "(\<exists>finish resp body api_data items.
            add_days (now w) 2 = Inr finish \<and>
            http_get w (build_request self (now w) finish) = Inr resp \<and>
            json_body resp = Inr body \<and>
            getitem body ''predictions'' = Inr api_data \<and>
            py_iter api_data = Inr items \<and>
            (\<forall>recs. api_data = JArray recs \<longrightarrow> items = recs) \<and>
            length evs = length items \<and>
            (\<forall>k<length items. \<exists>t.
               getitem (items ! k) ''t'' = Inr t \<and>
               parse w t = Inr (time_stamp (evs ! k)) \<and>
               getitem (items ! k) ''type'' = Inr (hi_lo (evs ! k)) \<and>
               getitem (items ! k) ''v'' = Inr (predicted_wl (evs ! k)))) \<and>
         (\<forall>old. raised (update w (self\<lparr>data := old\<rparr>)) = None \<and>
                data (sensor_after (update w (self\<lparr>data := old\<rparr>))) = Some evs)"
proof -
  from update_success [OF assms] obtain finish api_data
    where a: "add_days (now w) 2 = Inr finish"
      and f: "fetch w (build_request self (now w) finish) = Inr (api_data, evs)"
    by blast
  from fetch_Inr [OF f] obtain resp body items
    where g: "http_get w (build_request self (now w) finish) = Inr resp"
      "json_body resp = Inr body" "getitem body ''predictions'' = Inr api_data"
      "py_iter api_data = Inr items"
      and c: "comprehension (make_tide (parse w)) items = Inr evs"
    by blast
  from comprehension_Inr [OF c]
  have len: "length evs = length items"
    and each: "\<forall>k<length items. make_tide (parse w) (items ! k) = Inr (evs ! k)"
    by simp_all
  have fields: "\<forall>k<length items. \<exists>t.
      getitem (items ! k) ''t'' = Inr t \<and> parse w t = Inr (time_stamp (evs ! k)) \<and>
      getitem (items ! k) ''type'' = Inr (hi_lo (evs ! k)) \<and>
      getitem (items ! k) ''v'' = Inr (predicted_wl (evs ! k))"
    using each make_tide_Inr by blast
  have arr: "\<forall>recs. api_data = JArray recs \<longrightarrow> items = recs"
    using g(4) by auto
  have repl: "raised (update w (self\<lparr>data := old\<rparr>)) = None \<and>
      data (sensor_after (update w (self\<lparr>data := old\<rparr>))) = Some evs" for old
  proof -
    from f have "fetch w (build_request (self\<lparr>data := old\<rparr>) (now w) finish) = Inr (api_data, evs)"
      by (simp add: build_request_data)
    from update_of_fetch [OF a this] show ?thesis by simp
  qed
  from a g len fields arr repl show ?thesis by blast
qed

theorem update_replaces_series_in_order_witness:
  "raised (update (ex_world (ex_ok ex_body_numbers)) (ex_sensor\<lparr>data := Some ex_series_HLH\<rparr>)) = None \<and>
   (\<forall>old. data (sensor_after (update (ex_world (ex_ok ex_body_numbers)) (ex_sensor\<lparr>data := old\<rparr>))) =
      Some [\<lparr>time_stamp = ex_t0, hi_lo = JString ''L'', predicted_wl = JFloat 0.4\<rparr>,
            \<lparr>time_stamp = ex_t1, hi_lo = JString ''H'', predicted_wl = JFloat 2.3\<rparr>,
            \<lparr>time_stamp = ex_t2, hi_lo = JString ''L'', predicted_wl = JFloat 0.5\<rparr>])"
proof -
  let ?w = "ex_world (ex_ok ex_body_numbers)"
  let ?s = "ex_sensor\<lparr>data := Some ex_series_HLH\<rparr>"
  have r: "raised (update ?w ?s) = None"
    by (simp add: update_def Let_def ex_world_sel ex_add_days ex_fetch_numbers)
  have d: "data (sensor_after (update ?w ?s)) =
      Some [\<lparr>time_stamp = ex_t0, hi_lo = JString ''L'', predicted_wl = JFloat 0.4\<rparr>,
            \<lparr>time_stamp = ex_t1, hi_lo = JString ''H'', predicted_wl = JFloat 2.3\<rparr>,
            \<lparr>time_stamp = ex_t2, hi_lo = JString ''L'', predicted_wl = JFloat 0.5\<rparr>]"
    by (simp add: update_def Let_def ex_world_sel ex_add_days ex_fetch_numbers)
  from update_replaces_series_in_order [OF r d] r show ?thesis by simp
qed

end
